theory Spec2Isabelle
  imports Complex_Main "HOL-Library.Sublist" "HOL-Library.AList"
begin

section \<open>JavaScript values\<close>

text \<open>
  The gateway (\<^verbatim>\<open>src/services/authService.ts\<close>) reads rows typed \<^verbatim>\<open>any\<close> and copies
  their columns into user objects, so the model keeps the values a running program holds,
  not the types the source declares. A number is \<^verbatim>\<open>NaN\<close>, an infinity, the negative
  zero or a finite value given as a rational (every binary64 value is one of these; the
  model computes no arithmetic on numbers, so no rounding arises). A string is a list of
  8-bit characters, standing for the strings whose code units are all below 256.
\<close>

datatype number = NaN | PosInfinity | NegInfinity | NegZero | Fin rat

datatype jsval =
    JUndefined
  | JNull
  | JBool bool
  | JNumber number
  | JString string
  | JArray "jsval list"

text \<open>\<^verbatim>\<open>ToBoolean\<close>: the values that pass an \<^verbatim>\<open>if\<close>, a \<^verbatim>\<open>!\<close> or the left of \<^verbatim>\<open>||\<close>.\<close>

fun truthy :: "jsval \<Rightarrow> bool" where
  "truthy JUndefined = False"
| "truthy JNull = False"
| "truthy (JBool b) = b"
| "truthy (JNumber n) = (n \<noteq> NaN \<and> n \<noteq> Fin 0 \<and> n \<noteq> NegZero)"
| "truthy (JString s) = (s \<noteq> [])"
| "truthy (JArray xs) = True"

text \<open>\<^verbatim>\<open>a || b\<close>\<close>

definition js_or :: "jsval \<Rightarrow> jsval \<Rightarrow> jsval" where
  "js_or a b = (if truthy a then a else b)"

text \<open>
  An object with primitive properties (a row of a table, the account service's user, a
  payload) is the list of its properties in the order they were written; reading a
  property that is not there gives \<^verbatim>\<open>undefined\<close>.
\<close>

type_synonym obj = "(string \<times> jsval) list"

definition getProp :: "obj \<Rightarrow> string \<Rightarrow> jsval" where
  "getProp ob k = (case map_of ob k of None \<Rightarrow> JUndefined | Some v \<Rightarrow> v)"

text \<open>
  A thrown value is an \<^verbatim>\<open>Error\<close> object with its message. The message of a
  \<^verbatim>\<open>TypeError\<close> is the engine's; the texts below stand for it, and no property
  depends on them.
\<close>

datatype exn = Error string | TypeError string

fun message :: "exn \<Rightarrow> string" where
  "message (Error m) = m"
| "message (TypeError m) = m"

text \<open>An awaited promise either resolves with a value or rejects with a thrown value.\<close>

datatype 'a awaited = Resolved 'a | Rejected exn

text \<open>
  What the remote client resolves with, \<^verbatim>\<open>{ data, error }\<close>: by the client library's
  types either \<^verbatim>\<open>error\<close> is null and \<^verbatim>\<open>data\<close> is there, or \<^verbatim>\<open>error\<close> is an error
  object (kept as its \<^verbatim>\<open>message\<close>) and \<^verbatim>\<open>data\<close> is null.
\<close>

datatype 'a response = Success 'a | Failure string

fun resp_data :: "'a response \<Rightarrow> 'a option" where
  "resp_data (Success d) = Some d"
| "resp_data (Failure m) = None"

fun resp_error :: "'a response \<Rightarrow> string option" where
  "resp_error (Success d) = None"
| "resp_error (Failure m) = Some m"

text \<open>
  \<^verbatim>\<open>authData.user\<close> of a sign-up response: the created user, or null (it is null in
  every failure, and the library's types allow null in a success too).
\<close>

fun data_user :: "obj option response \<Rightarrow> obj option" where
  "data_user (Success u) = u"
| "data_user (Failure m) = None"

section \<open>Strings\<close>

text \<open>
  \<^verbatim>\<open>String.prototype.toLowerCase\<close> and the global \<^verbatim>\<open>parseFloat\<close> belong to the language
  and not to this repository. Their definitions (the Unicode case mapping, the grammar
  of decimal literals and the rounding to binary64) are not modelled: every function
  below that calls one of them takes it as its first argument, named as in the source,
  and each property is stated for every such argument.

  On the strings of this model \<^verbatim>\<open>toLowerCase\<close> works character by character: the letters
  A to Z and the letters from U+00C0 to U+00DE other than U+00D7 move up by 32, every
  other character stays. This instance is used where an example needs the values.
\<close>

definition toLowerCase_latin1 :: "string \<Rightarrow> string" where
  "toLowerCase_latin1 s =
     map (\<lambda>c. case map_of
                  (zip (''ABCDEFGHIJKLMNOPQRSTUVWXYZ'' @
                        [CHR 0xC0, CHR 0xC1, CHR 0xC2, CHR 0xC3, CHR 0xC4, CHR 0xC5, CHR 0xC6,
                         CHR 0xC7, CHR 0xC8, CHR 0xC9, CHR 0xCA, CHR 0xCB, CHR 0xCC, CHR 0xCD,
                         CHR 0xCE, CHR 0xCF, CHR 0xD0, CHR 0xD1, CHR 0xD2, CHR 0xD3, CHR 0xD4,
                         CHR 0xD5, CHR 0xD6, CHR 0xD8, CHR 0xD9, CHR 0xDA, CHR 0xDB, CHR 0xDC,
                         CHR 0xDD, CHR 0xDE])
                       (''abcdefghijklmnopqrstuvwxyz'' @
                        [CHR 0xE0, CHR 0xE1, CHR 0xE2, CHR 0xE3, CHR 0xE4, CHR 0xE5, CHR 0xE6,
                         CHR 0xE7, CHR 0xE8, CHR 0xE9, CHR 0xEA, CHR 0xEB, CHR 0xEC, CHR 0xED,
                         CHR 0xEE, CHR 0xEF, CHR 0xF0, CHR 0xF1, CHR 0xF2, CHR 0xF3, CHR 0xF4,
                         CHR 0xF5, CHR 0xF6, CHR 0xF8, CHR 0xF9, CHR 0xFA, CHR 0xFB, CHR 0xFC,
                         CHR 0xFD, CHR 0xFE])) c of
                None \<Rightarrow> c
              | Some l \<Rightarrow> l) s"

text \<open>
  \<^verbatim>\<open>s.split(sep)\<close> for a separator of one character. The result is never the empty
  array, so the inner match's first case does not arise.
\<close>

fun split :: "char \<Rightarrow> string \<Rightarrow> string list" where
  "split sep [] = [[]]"
| "split sep (c # cs) =
     (if c = sep then [] # split sep cs
      else (case split sep cs of [] \<Rightarrow> [[c]] | w # ws \<Rightarrow> (c # w) # ws))"

section \<open>The gateway: \<^verbatim>\<open>src/services/authService.ts\<close>\<close>

text \<open>
  The \<^verbatim>\<open>User\<close> objects this module builds. Every field holds whatever value the code put
  there, which for a row typed \<^verbatim>\<open>any\<close> need not be of the declared field type. A
  \<^verbatim>\<open>Partial<User>\<close> is the same record with \<^verbatim>\<open>undefined\<close> in the fields left out.
\<close>

record User =
  id_user :: jsval
  email :: jsval
  fullName :: jsval
  username :: jsval
  phoneNumber :: jsval
  isAdmin :: jsval
  isVerified :: jsval
  balance :: jsval
  notifications :: jsval
  profilePictureUrl :: jsval

text \<open>The argument of \<^verbatim>\<open>register\<close> and \<^verbatim>\<open>adminCreateUser\<close>: user fields and a password.\<close>

record UserData = User +
  password :: jsval

text \<open>
  \<^verbatim>\<open>mapProfileToUser(profile: any, authUser: any)\<close>; both arguments are an object or
  null, and reading a property of null throws. The object literal evaluates
  \<^verbatim>\<open>authUser.id\<close> first, then \<^verbatim>\<open>profile.email\<close>.
\<close>

definition mapProfileToUser :: "obj option \<Rightarrow> obj option \<Rightarrow> exn + User" where
  "mapProfileToUser profile authUser =
     (case authUser of
        None \<Rightarrow> Inl (TypeError ''Cannot read properties of null (reading id)'')
      | Some au \<Rightarrow>
          (case profile of
             None \<Rightarrow> Inl (TypeError ''Cannot read properties of null (reading email)'')
           | Some p \<Rightarrow>
               Inr \<lparr> id_user = getProp au ''id'',
                     email = js_or (js_or (getProp p ''email'') (getProp au ''email'')) (JString ''''),
                     fullName = js_or (getProp p ''full_name'') (JString ''''),
                     username = js_or (getProp p ''username'') (JString ''''),
                     phoneNumber = js_or (getProp p ''phone_number'') (JString ''''),
                     isAdmin = js_or (getProp p ''is_admin'') (JBool False),
                     isVerified = js_or (getProp p ''is_verified'') (JBool False),
                     balance = js_or (getProp p ''balance'') (JNumber (Fin 0)),
                     notifications = JArray [],
                     profilePictureUrl = getProp p ''profile_picture_url'' \<rparr>))"

text \<open>The calls the gateway makes on the remote client, in the order it makes them.\<close>

datatype call =
    AuthSignUp jsval jsval
  | ProfilesUpsert obj
  | ProfilesInsert obj
  | ProfilesSelectAll
  | ProfilesUpdate obj jsval

text \<open>
  \<^verbatim>\<open>getAllUsers\<close>: one query; a failed query gives the empty list, a rejected one
  rejects (there is no \<^verbatim>\<open>try\<close>). The row mapping is written out in the function and
  does not go through \<^verbatim>\<open>mapProfileToUser\<close>.
\<close>

definition getAllUsers_row :: "obj \<Rightarrow> User" where
  "getAllUsers_row p =
     \<lparr> id_user = getProp p ''id'',
       email = js_or (getProp p ''email'') (JString ''''),
       fullName = getProp p ''full_name'',
       username = getProp p ''username'',
       phoneNumber = getProp p ''phone_number'',
       isAdmin = getProp p ''is_admin'',
       isVerified = getProp p ''is_verified'',
       balance = getProp p ''balance'',
       notifications = JArray [],
       profilePictureUrl = getProp p ''profile_picture_url'' \<rparr>"

definition getAllUsers :: "obj list response awaited \<Rightarrow> call list \<times> (exn + User list)" where
  "getAllUsers selected =
     ([ProfilesSelectAll],
      (case selected of
         Rejected e \<Rightarrow> Inl e
       | Resolved r \<Rightarrow>
           (case resp_error r of
              Some m \<Rightarrow> Inr []
            | None \<Rightarrow>
                (case resp_data r of
                   None \<Rightarrow> Inl (TypeError ''Cannot read properties of null (reading map)'')
                 | Some profiles \<Rightarrow> Inr (map getAllUsers_row profiles)))))"

text \<open>
  \<^verbatim>\<open>userData.email.split('@')[0]\<close> and \<^verbatim>\<open>v.toLowerCase()\<close>: only a string has these
  methods, and calling one on any other value throws.
\<close>

definition split_email :: "jsval \<Rightarrow> exn + jsval" where
  "split_email e =
     (case e of
        JString s \<Rightarrow> Inr (case split CHR ''@'' s of [] \<Rightarrow> JUndefined | w # ws \<Rightarrow> JString w)
      | _ \<Rightarrow> Inl (TypeError ''split is not a function''))"

definition js_toLowerCase :: "(string \<Rightarrow> string) \<Rightarrow> jsval \<Rightarrow> exn + jsval" where
  "js_toLowerCase toLowerCase v =
     (case v of
        JString s \<Rightarrow> Inr (JString (toLowerCase s))
      | _ \<Rightarrow> Inl (TypeError ''toLowerCase is not a function''))"

text \<open>What \<^verbatim>\<open>login\<close> and \<^verbatim>\<open>register\<close> return: \<^verbatim>\<open>{ user, error }\<close>.\<close>

record AuthResult =
  user :: "User option"
  error :: "string option"

text \<open>
  \<^verbatim>\<open>register\<close>, given what the sign-up and the profile upsert resolve with. The whole body
  is inside \<^verbatim>\<open>try\<close>; the \<^verbatim>\<open>catch\<close> returns the thrown value's message as the error.
\<close>

definition register_row :: "'a User_scheme \<Rightarrow> jsval \<Rightarrow> jsval \<Rightarrow> obj" where
  "register_row userData userId username' =
     [(''id'', userId),
      (''email'', email userData),
      (''full_name'', fullName userData),
      (''username'', username'),
      (''phone_number'', phoneNumber userData),
      (''is_admin'', JBool False),
      (''is_verified'', JBool False),
      (''balance'', JNumber (Fin 13000000))]"

definition register ::
  "(string \<Rightarrow> string) \<Rightarrow> UserData \<Rightarrow> obj option response awaited \<Rightarrow> obj response awaited \<Rightarrow>
   call list \<times> AuthResult"
where
  "register toLowerCase userData signedUp upserted =
     (let signUp = AuthSignUp (email userData) (password userData) in
      case signedUp of
        Rejected e \<Rightarrow> ([signUp], \<lparr>user = None, error = Some (message e)\<rparr>)
      | Resolved r \<Rightarrow>
          (case resp_error r of
             Some m \<Rightarrow> ([signUp], \<lparr>user = None, error = Some m\<rparr>)
           | None \<Rightarrow>
               (case data_user r of
                  None \<Rightarrow> ([signUp], \<lparr>user = None, error = Some ''Gagal membuat akun.''\<rparr>)
                | Some authUser \<Rightarrow>
                    (case split_email (email userData) of
                       Inl e \<Rightarrow> ([signUp], \<lparr>user = None, error = Some (message e)\<rparr>)
                     | Inr part \<Rightarrow>
                     (case js_toLowerCase toLowerCase part of
                       Inl e \<Rightarrow> ([signUp], \<lparr>user = None, error = Some (message e)\<rparr>)
                     | Inr username' \<Rightarrow>
                         (let upsert = ProfilesUpsert
                                (register_row userData (getProp authUser ''id'') username')
                          in case upserted of
                            Rejected e \<Rightarrow>
                              ([signUp, upsert], \<lparr>user = None, error = Some (message e)\<rparr>)
                          | Resolved pr \<Rightarrow>
                              (case resp_error pr of
                                 Some m \<Rightarrow>
                                   ([signUp, upsert],
                                    \<lparr>user = None,
                                     error = Some ''Autentikasi sukses, tapi profil gagal disimpan.''\<rparr>)
                               | None \<Rightarrow>
                                   (case mapProfileToUser (resp_data pr) (Some authUser) of
                                      Inl e \<Rightarrow>
                                        ([signUp, upsert],
                                         \<lparr>user = None, error = Some (message e)\<rparr>)
                                    | Inr u \<Rightarrow>
                                        ([signUp, upsert],
                                         \<lparr>user = Some u, error = None\<rparr>)))))))))"

text \<open>
  \<^verbatim>\<open>updateUserInfo(updatedData: Partial<User>)\<close>: the payload \<^verbatim>\<open>updates\<close> starts empty
  and gets one assignment per guard that passes; then one update call, whose result is
  not read.
\<close>

definition updateUserInfo_updates :: "'a User_scheme \<Rightarrow> obj" where
  "updateUserInfo_updates updatedData =
     (let updates = [];
          updates = (if truthy (fullName updatedData)
                     then AList.update ''full_name'' (fullName updatedData) updates
                     else updates);
          updates = (if truthy (phoneNumber updatedData)
                     then AList.update ''phone_number'' (phoneNumber updatedData) updates
                     else updates);
          updates = (if truthy (profilePictureUrl updatedData)
                     then AList.update ''profile_picture_url'' (profilePictureUrl updatedData) updates
                     else updates);
          updates = (if isVerified updatedData \<noteq> JUndefined
                     then AList.update ''is_verified'' (isVerified updatedData) updates
                     else updates)
      in updates)"

definition updateUserInfo :: "User \<Rightarrow> unit response awaited \<Rightarrow> call list \<times> (exn + unit)" where
  "updateUserInfo updatedData updated =
     (if \<not> truthy (id_user updatedData) then ([], Inr ())
      else ([ProfilesUpdate (updateUserInfo_updates updatedData) (id_user updatedData)],
            (case updated of Rejected e \<Rightarrow> Inl e | Resolved r \<Rightarrow> Inr ())))"

text \<open>
  \<^verbatim>\<open>adminCreateUser\<close>: the body is inside \<^verbatim>\<open>try\<close> and the \<^verbatim>\<open>catch\<close> returns null. The
  insert's \<^verbatim>\<open>error\<close> is not read: only \<^verbatim>\<open>data\<close> is taken and handed to
  \<^verbatim>\<open>mapProfileToUser\<close>.
\<close>

definition adminCreateUser_row :: "'a User_scheme \<Rightarrow> jsval \<Rightarrow> jsval \<Rightarrow> obj" where
  "adminCreateUser_row userData userId username' =
     [(''id'', userId),
      (''email'', email userData),
      (''full_name'', fullName userData),
      (''username'', username'),
      (''phone_number'', phoneNumber userData),
      (''is_admin'', js_or (isAdmin userData) (JBool False)),
      (''is_verified'', js_or (isVerified userData) (JBool False)),
      (''balance'', js_or (balance userData) (JNumber (Fin 0)))]"

definition adminCreateUser ::
  "UserData \<Rightarrow> obj option response awaited \<Rightarrow> obj response awaited \<Rightarrow> call list \<times> User option"
where
  "adminCreateUser userData signedUp inserted =
     (let signUp = AuthSignUp (email userData) (password userData) in
      case signedUp of
        Rejected e \<Rightarrow> ([signUp], None)
      | Resolved r \<Rightarrow>
          (if resp_error r \<noteq> None \<or> data_user r = None then ([signUp], None)
           else
             (case data_user r of
                None \<Rightarrow> ([signUp], None)
              | Some authUser \<Rightarrow>
                  (case split_email (email userData) of
                     Inl e \<Rightarrow> ([signUp], None)
                   | Inr username' \<Rightarrow>
                       (let insert = ProfilesInsert
                              (adminCreateUser_row userData (getProp authUser ''id'') username')
                        in case inserted of
                          Rejected e \<Rightarrow> ([signUp, insert], None)
                        | Resolved pr \<Rightarrow>
                            (case mapProfileToUser (resp_data pr) (Some authUser) of
                               Inl e \<Rightarrow> ([signUp, insert], None)
                             | Inr u \<Rightarrow> ([signUp, insert], Some u)))))))"

section \<open>More of the language: white space, \<^verbatim>\<open>includes\<close>, \<^verbatim>\<open>isNaN\<close>\<close>

text \<open>
  The white space and line terminators among the code units below 256: tab, line feed,
  vertical tab, form feed, carriage return, space and the no-break space U+00A0.
  \<^verbatim>\<open>s.trim()\<close> drops them from both ends.
\<close>

definition isWhiteSpace :: "char \<Rightarrow> bool" where
  "isWhiteSpace c =
     (c \<in> set [CHR 0x09, CHR 0x0A, CHR 0x0B, CHR 0x0C, CHR 0x0D, CHR '' '', CHR 0xA0])"

definition trim :: "string \<Rightarrow> string" where
  "trim s = rev (dropWhile isWhiteSpace (rev (dropWhile isWhiteSpace s)))"

text \<open>\<^verbatim>\<open>s.includes(q)\<close>: \<^verbatim>\<open>q\<close> occurs in \<^verbatim>\<open>s\<close> as a run of consecutive characters.\<close>

fun includes_str :: "string \<Rightarrow> string \<Rightarrow> bool" where
  "includes_str [] q = (q = [])"
| "includes_str (c # s) q = (prefix q (c # s) \<or> includes_str s q)"

definition isNaN :: "number \<Rightarrow> bool" where
  "isNaN n = (n = NaN)"

section \<open>The admin console: \<^verbatim>\<open>AdminPanel\<close>\<close>

text \<open>
  Transactions come from the transaction context, which is not part of these sources;
  their fields are taken with the types the component uses them at.
\<close>

datatype TransactionType = DEPOSIT | WITHDRAWAL | TRANSFER

datatype TransactionStatus = PENDING | SUCCESS | REJECTED | CANCELLED | FAILED

record Transaction =
  id_trx :: string
  userId :: string
  type_trx :: TransactionType
  amount :: number
  status :: TransactionStatus
  date :: string

datatype BalanceOperation = OpAdd | OpSet

text \<open>
  The component's state, as far as the transaction search and the balance modal read or
  write it (the tab, the bank list and the create-user form are left out).
\<close>

record AdminPanel =
  users :: "User list"
  transactions :: "Transaction list"
  filteredTransactions :: "Transaction list"
  trxSearch :: string
  isBalanceModalOpen :: bool
  selectedUserForBalance :: "User option"
  balanceAmount :: string
  balanceOperation :: BalanceOperation

subsection \<open>The transaction search effect\<close>

text \<open>\<^verbatim>\<open>v.toLowerCase().includes(lower)\<close>\<close>

definition lowerIncludes :: "(string \<Rightarrow> string) \<Rightarrow> jsval \<Rightarrow> string \<Rightarrow> exn + bool" where
  "lowerIncludes toLowerCase v lower =
     (case js_toLowerCase toLowerCase v of
        Inr (JString l) \<Rightarrow> Inr (includes_str l lower)
      | Inr _ \<Rightarrow> Inl (TypeError ''includes is not a function'')
      | Inl e \<Rightarrow> Inl e)"

text \<open>
  \<^verbatim>\<open>users.find(u => u.id === t.userId)?.field.toLowerCase().includes(lower)\<close>: when no user
  is found the optional chain stops with \<^verbatim>\<open>undefined\<close>, which counts as false.
\<close>

definition ownerIncludes ::
  "(string \<Rightarrow> string) \<Rightarrow> (User \<Rightarrow> jsval) \<Rightarrow> User list \<Rightarrow> Transaction \<Rightarrow> string \<Rightarrow> exn + bool"
where
  "ownerIncludes toLowerCase field us t lower =
     (case find (\<lambda>u. id_user u = JString (userId t)) us of
        None \<Rightarrow> Inr False
      | Some u \<Rightarrow> lowerIncludes toLowerCase (field u) lower)"

text \<open>The filter's predicate: four tests joined by \<^verbatim>\<open>||\<close>, evaluated left to right.\<close>

definition trxMatches ::
  "(string \<Rightarrow> string) \<Rightarrow> User list \<Rightarrow> string \<Rightarrow> Transaction \<Rightarrow> exn + bool"
where
  "trxMatches toLowerCase us lower t =
     (if includes_str (toLowerCase (id_trx t)) lower then Inr True
      else if includes_str (toLowerCase (userId t)) lower then Inr True
      else (case ownerIncludes toLowerCase email us t lower of
              Inl e \<Rightarrow> Inl e
            | Inr True \<Rightarrow> Inr True
            | Inr False \<Rightarrow> ownerIncludes toLowerCase fullName us t lower))"

text \<open>\<^verbatim>\<open>xs.filter(p)\<close> for a predicate that may throw: the first throw ends the filter.\<close>

fun filterE :: "('a \<Rightarrow> exn + bool) \<Rightarrow> 'a list \<Rightarrow> exn + 'a list" where
  "filterE p [] = Inr []"
| "filterE p (x # xs) =
     (case p x of
        Inl e \<Rightarrow> Inl e
      | Inr b \<Rightarrow>
          (case filterE p xs of
             Inl e \<Rightarrow> Inl e
           | Inr ys \<Rightarrow> Inr (if b then x # ys else ys)))"

text \<open>
  The effect that runs when the search string, the transactions or the users change; it
  either sets the filtered list or throws.
\<close>

definition trxSearchEffect :: "(string \<Rightarrow> string) \<Rightarrow> AdminPanel \<Rightarrow> exn + AdminPanel" where
  "trxSearchEffect toLowerCase s =
     (if trim (trxSearch s) = [] then Inr (s\<lparr>filteredTransactions := transactions s\<rparr>)
      else
        (let lower = toLowerCase (trxSearch s) in
         case filterE (trxMatches toLowerCase (users s) lower) (transactions s) of
           Inl e \<Rightarrow> Inl e
         | Inr filtered \<Rightarrow> Inr (s\<lparr>filteredTransactions := filtered\<rparr>)))"

subsection \<open>The status cell of a transaction row\<close>

datatype option_elem = OptionElem TransactionStatus string

datatype action_cell = Select TransactionStatus "option_elem list" | Span string

definition statusCell :: "Transaction \<Rightarrow> action_cell" where
  "statusCell t =
     (if type_trx t \<noteq> TRANSFER then
        Select (status t)
          ([OptionElem PENDING ''PENDING'',
            OptionElem SUCCESS ''DONE (Success)'',
            OptionElem REJECTED ''REJECTED'']
           @ (if type_trx t = WITHDRAWAL then [OptionElem CANCELLED ''CANCELLED''] else [])
           @ (if type_trx t = WITHDRAWAL then [OptionElem FAILED ''FAILED''] else []))
      else Span ''Auto'')"

subsection \<open>The balance modal\<close>

text \<open>
  What a handler does besides setting state, in order. \<^verbatim>\<open>adminUpdateUserBalance\<close> is the
  transaction context's function and is awaited; \<^verbatim>\<open>loadData\<close> is started and not
  awaited.
\<close>

datatype effect =
    PreventDefault
  | Alert string
  | AdminUpdateUserBalance jsval number BalanceOperation
  | LoadData

text \<open>The balance form is in the page only while the modal is open and a user is selected.\<close>

definition balanceModalRendered :: "AdminPanel \<Rightarrow> bool" where
  "balanceModalRendered s = (isBalanceModalOpen s \<and> selectedUserForBalance s \<noteq> None)"

text \<open>
  \<^verbatim>\<open>handleBalanceSubmit\<close>, given what the awaited \<^verbatim>\<open>adminUpdateUserBalance\<close> does: the
  next state, the effects, and the thrown value if the handler's promise rejects.
\<close>

definition handleBalanceSubmit ::
  "(string \<Rightarrow> number) \<Rightarrow> AdminPanel \<Rightarrow> unit awaited \<Rightarrow> AdminPanel \<times> effect list \<times> exn option"
where
  "handleBalanceSubmit parseFloat s updated =
     (case selectedUserForBalance s of
        None \<Rightarrow> (s, [PreventDefault], None)
      | Some u \<Rightarrow>
          (if balanceAmount s = [] then (s, [PreventDefault], None)
           else
             (let amount' = parseFloat (balanceAmount s) in
              if isNaN amount' then
                (s, [PreventDefault, Alert ''Please enter a valid number''], None)
              else
                (let update = AdminUpdateUserBalance (id_user u) amount' (balanceOperation s) in
                 case updated of
                   Rejected e \<Rightarrow> (s, [PreventDefault, update], Some e)
                 | Resolved r \<Rightarrow>
                     (s\<lparr>isBalanceModalOpen := False,
                        selectedUserForBalance := None,
                        balanceAmount := []\<rparr>,
                      [PreventDefault, update, LoadData],
                      None)))))"

section \<open>Notions the properties are stated with\<close>

text \<open>
  Remote account creation fails: the sign-up call throws, resolves with an error, or
  resolves without a user.
\<close>

definition accountCreationFails :: "obj option response awaited \<Rightarrow> bool" where
  "accountCreationFails signedUp =
     (case signedUp of
        Rejected e \<Rightarrow> True
      | Resolved r \<Rightarrow> resp_error r \<noteq> None \<or> data_user r = None)"

text \<open>The profile insertion fails: the insert call throws or resolves with an error.\<close>

definition profileInsertFails :: "obj response awaited \<Rightarrow> bool" where
  "profileInsertFails inserted =
     (case inserted of
        Rejected e \<Rightarrow> True
      | Resolved r \<Rightarrow> resp_error r \<noteq> None)"

text \<open>The calls of the balance-update gateway function among a handler's effects.\<close>

fun isBalanceUpdate :: "effect \<Rightarrow> bool" where
  "isBalanceUpdate (AdminUpdateUserBalance uid n m) = True"
| "isBalanceUpdate PreventDefault = False"
| "isBalanceUpdate (Alert msg) = False"
| "isBalanceUpdate LoadData = False"

text \<open>The status values a row's selector offers; none when the row has no selector.\<close>

definition offered :: "Transaction \<Rightarrow> TransactionStatus list" where
  "offered t = (case statusCell t of
                  Select v opts \<Rightarrow> map (\<lambda>opt. case opt of OptionElem st label \<Rightarrow> st) opts
                | Span txt \<Rightarrow> [])"

definition hasSelector :: "Transaction \<Rightarrow> bool" where
  "hasSelector t = (case statusCell t of Select v opts \<Rightarrow> True | Span txt \<Rightarrow> False)"

section \<open>Example inputs\<close>

definition jane :: UserData where
  "jane = \<lparr> id_user = JUndefined,
            email = JString ''Jane.Doe@X.com'',
            fullName = JString ''Jane Doe'',
            username = JUndefined,
            phoneNumber = JString ''0812'',
            isAdmin = JBool True,
            isVerified = JBool True,
            balance = JNumber (Fin 5000),
            notifications = JUndefined,
            profilePictureUrl = JUndefined,
            password = JString ''secret1'' \<rparr>"

definition jane_auth :: obj where
  "jane_auth = [(''id'', JString ''u1''), (''email'', JString ''Jane.Doe@X.com'')]"

definition jane_profile :: obj where
  "jane_profile =
     [(''id'', JString ''u1''), (''email'', JString ''Jane.Doe@X.com''),
      (''full_name'', JString ''Jane Doe''), (''username'', JString ''jane.doe''),
      (''phone_number'', JString ''0812''), (''is_admin'', JBool False),
      (''is_verified'', JBool False), (''balance'', JNumber (Fin 13000000))]"

definition jane_user :: User where
  "jane_user = \<lparr> id_user = JString ''u1'',
                 email = JString ''Jane.Doe@X.com'',
                 fullName = JString ''Jane Doe'',
                 username = JString ''jane.doe'',
                 phoneNumber = JString ''0812'',
                 isAdmin = JBool False,
                 isVerified = JBool False,
                 balance = JNumber (Fin 100000),
                 notifications = JArray [],
                 profilePictureUrl = JUndefined \<rparr>"

text \<open>A profile row whose flags and balance are SQL nulls.\<close>

definition null_row :: obj where
  "null_row =
     [(''id'', JString ''u2''), (''email'', JString ''budi@x.com''),
      (''full_name'', JString ''Budi''), (''username'', JString ''budi''),
      (''phone_number'', JString ''0813''), (''is_admin'', JNull),
      (''is_verified'', JNull), (''balance'', JNull), (''profile_picture_url'', JNull)]"

text \<open>A profile row of account \<^verbatim>\<open>u1\<close> whose full name is an SQL null.\<close>

definition nameless_row :: obj where
  "nameless_row =
     [(''id'', JString ''u1''), (''email'', JString ''jane.doe@x.com''),
      (''full_name'', JNull), (''username'', JString ''jane.doe''),
      (''phone_number'', JString ''0812''), (''is_admin'', JBool False),
      (''is_verified'', JBool True), (''balance'', JNumber (Fin 100000)),
      (''profile_picture_url'', JNull)]"

text \<open>
  A partial user that asks to deactivate account \<^verbatim>\<open>u1\<close>, and carries an email and an
  empty phone number as well.
\<close>

definition deactivate :: User where
  "deactivate = \<lparr> id_user = JString ''u1'',
                  email = JString ''new@x.com'',
                  fullName = JUndefined,
                  username = JUndefined,
                  phoneNumber = JString [],
                  isAdmin = JUndefined,
                  isVerified = JBool False,
                  balance = JUndefined,
                  notifications = JUndefined,
                  profilePictureUrl = JUndefined \<rparr>"

definition deposit1 :: Transaction where
  "deposit1 = \<lparr> id_trx = ''TRX-001'', userId = ''u1'', type_trx = DEPOSIT,
                amount = Fin 50000, status = PENDING, date = ''2024-01-05'' \<rparr>"

definition withdrawal2 :: Transaction where
  "withdrawal2 = \<lparr> id_trx = ''TRX-002'', userId = ''u9'', type_trx = WITHDRAWAL,
                   amount = Fin 20000, status = PENDING, date = ''2024-01-06'' \<rparr>"

text \<open>The console with one user, two transactions and the balance modal open on the user.\<close>

definition console :: AdminPanel where
  "console = \<lparr> users = [jane_user],
               transactions = [deposit1, withdrawal2],
               filteredTransactions = [],
               trxSearch = ''JANE'',
               isBalanceModalOpen = True,
               selectedUserForBalance = Some jane_user,
               balanceAmount = ''5000'',
               balanceOperation = OpAdd \<rparr>"


section \<open>Auxiliary facts\<close>

lemmas js_defs = getProp_def js_or_def toLowerCase_latin1_def split_email_def
  js_toLowerCase_def

lemma resp_error_None: "resp_error r = None \<longleftrightarrow> (\<exists>d. r = Success d)"
  by (cases r) simp_all

lemma resp_error_Some: "resp_error r = Some m \<longleftrightarrow> r = Failure m"
  by (cases r) auto

lemma resp_data_Some: "resp_data r = Some d \<longleftrightarrow> r = Success d"
  by (cases r) auto

lemma resp_data_None: "resp_data r = None \<longleftrightarrow> (\<exists>m. r = Failure m)"
  by (cases r) simp_all

lemma data_user_Some: "data_user r = Some u \<longleftrightarrow> r = Success (Some u)"
  by (cases r) auto

lemmas resp_iffs = resp_error_None resp_error_Some resp_data_Some resp_data_None data_user_Some

lemma split_nonempty: "split sep s \<noteq> []"
  by (induction s) (auto split: list.splits)

lemma split_head: "split sep s = w # ws \<Longrightarrow> w = takeWhile (\<lambda>c. c \<noteq> sep) s"
proof (induction s arbitrary: w ws)
  case Nil
  then show ?case by simp
next
  case (Cons c cs)
  show ?case
  proof (cases "c = sep")
    case True
    with Cons.prems show ?thesis by simp
  next
    case False
    obtain v vs where v: "split sep cs = v # vs"
      using split_nonempty [of sep cs] by (cases "split sep cs") auto
    with Cons.IH have "v = takeWhile (\<lambda>c. c \<noteq> sep) cs" by simp
    with False v Cons.prems show ?thesis by simp
  qed
qed

lemma register_Some:
  assumes "user (snd (register toLowerCase userData signedUp upserted)) = Some u"
  shows "\<exists>e authUser.
           email userData = JString e \<and>
           signedUp = Resolved (Success (Some authUser)) \<and>
           fst (register toLowerCase userData signedUp upserted) =
             [AuthSignUp (email userData) (password userData),
              ProfilesUpsert
                (register_row userData (getProp authUser ''id'')
                   (JString (toLowerCase (hd (split CHR ''@'' e)))))]"
  using assms split_nonempty [of "CHR ''@''"]
  by (auto simp: register_def Let_def resp_iffs split_email_def js_toLowerCase_def
           split: awaited.splits option.splits sum.splits jsval.splits list.splits)

lemma adminCreateUser_Some:
  assumes "snd (adminCreateUser userData signedUp inserted) = Some u"
  shows "\<exists>authUser profile.
           signedUp = Resolved (Success (Some authUser)) \<and>
           inserted = Resolved (Success profile) \<and>
           mapProfileToUser (Some profile) (Some authUser) = Inr u"
  using assms
  by (auto simp: adminCreateUser_def Let_def resp_iffs mapProfileToUser_def
           split: awaited.splits option.splits sum.splits if_splits)

lemma adminCreateUser_account_failure:
  "accountCreationFails signedUp \<Longrightarrow> snd (adminCreateUser userData signedUp inserted) = None"
  by (auto simp: adminCreateUser_def accountCreationFails_def Let_def
           split: awaited.splits option.splits sum.splits)

lemma adminCreateUser_insert_failure:
  "profileInsertFails inserted \<Longrightarrow> snd (adminCreateUser userData signedUp inserted) = None"
  by (auto simp: adminCreateUser_def profileInsertFails_def mapProfileToUser_def Let_def resp_iffs
           split: awaited.splits option.splits sum.splits)

lemmas search_defs = trxSearchEffect_def trxMatches_def ownerIncludes_def lowerIncludes_def
  console_def jane_user_def deposit1_def withdrawal2_def trim_def isWhiteSpace_def
  js_defs Let_def

section \<open>The gateway's properties\<close>

text \<open>
  C1. The claim: every row that the profile-list query returns is mapped by
  \<^verbatim>\<open>getAllUsers\<close> to a user with default-safe values, a missing admin or verified flag
  becoming false and a missing balance 0. The code does not do this. For a row whose
  flags and balance are null, \<^verbatim>\<open>getAllUsers\<close> hands the nulls on unchanged, while
  \<^verbatim>\<open>mapProfileToUser\<close>, the mapping every other gateway function uses, turns the same
  row's flags into false and its balance into 0.
\<close>

theorem getAllUsers_keeps_null:
  "snd (getAllUsers (Resolved (Success [null_row]))) =
     Inr [\<lparr> id_user = JString ''u2'', email = JString ''budi@x.com'',
             fullName = JString ''Budi'', username = JString ''budi'',
             phoneNumber = JString ''0813'', isAdmin = JNull, isVerified = JNull,
             balance = JNull, notifications = JArray [], profilePictureUrl = JNull \<rparr>] \<and>
   mapProfileToUser (Some null_row) (Some [(''id'', JString ''u2'')]) =
     Inr \<lparr> id_user = JString ''u2'', email = JString ''budi@x.com'',
            fullName = JString ''Budi'', username = JString ''budi'',
            phoneNumber = JString ''0813'', isAdmin = JBool False, isVerified = JBool False,
            balance = JNumber (Fin 0), notifications = JArray [], profilePictureUrl = JNull \<rparr>"
  by (simp add: getAllUsers_def getAllUsers_row_def mapProfileToUser_def null_row_def js_defs)

text \<open>
  C2, as amended. \<^verbatim>\<open>updateUserInfo\<close> makes one update call when the id is truthy and
  none otherwise. The payload holds \<^verbatim>\<open>full_name\<close>, \<^verbatim>\<open>phone_number\<close> and
  \<^verbatim>\<open>profile_picture_url\<close> exactly when the matching field of the partial record is
  truthy, so a falsy value of one of these is skipped and its column is not written. It
  holds \<^verbatim>\<open>is_verified\<close> exactly when \<^verbatim>\<open>isVerified\<close> is not undefined, so the value false is
  written. It holds no other column, whatever the other fields of the record are.
\<close>

theorem updateUserInfo_sparse:
  "fst (updateUserInfo updatedData updated) =
     (if truthy (id_user updatedData)
      then [ProfilesUpdate (updateUserInfo_updates updatedData) (id_user updatedData)]
      else []) \<and>
   (\<forall>k. map_of (updateUserInfo_updates updatedData) k =
     (if k = ''full_name'' \<and> truthy (fullName updatedData) then Some (fullName updatedData)
      else if k = ''phone_number'' \<and> truthy (phoneNumber updatedData)
        then Some (phoneNumber updatedData)
      else if k = ''profile_picture_url'' \<and> truthy (profilePictureUrl updatedData)
        then Some (profilePictureUrl updatedData)
      else if k = ''is_verified'' \<and> isVerified updatedData \<noteq> JUndefined
        then Some (isVerified updatedData)
      else None))"
  by (simp add: updateUserInfo_def updateUserInfo_updates_def Let_def update_conv')

theorem updateUserInfo_sparse_witness:
  "fst (updateUserInfo deactivate (Resolved (Success ()))) =
     [ProfilesUpdate [(''is_verified'', JBool False)] (JString ''u1'')] \<and>
   map_of (updateUserInfo_updates deactivate) ''is_verified'' = Some (JBool False) \<and>
   map_of (updateUserInfo_updates deactivate) ''phone_number'' = None \<and>
   map_of (updateUserInfo_updates deactivate) ''email'' = None"
  using updateUserInfo_sparse [of deactivate "Resolved (Success ())"]
  by (simp add: deactivate_def updateUserInfo_updates_def)

text \<open>
  C2 as it was claimed (a field is in the update exactly when it is present and truthy)
  fails in both directions on one input: \<^verbatim>\<open>isVerified\<close> is false and is written, and
  \<^verbatim>\<open>email\<close> is present and truthy and is not written.
\<close>

theorem updateUserInfo_truthy_iff_counterexample:
  "\<not> truthy (isVerified deactivate) \<and>
   truthy (email deactivate) \<and>
   fst (updateUserInfo deactivate (Resolved (Success ()))) =
     [ProfilesUpdate [(''is_verified'', JBool False)] (JString ''u1'')]"
  by (simp add: deactivate_def updateUserInfo_def updateUserInfo_updates_def)

text \<open>
  C3. Whenever remote account creation fails (the sign-up throws, returns an error or
  returns no user), \<^verbatim>\<open>register\<close> returns a null user with a non-null error, and the
  sign-up is the only remote call it made: no profile row is written.
\<close>

theorem register_account_failure:
  assumes "accountCreationFails signedUp"
  shows "user (snd (register toLowerCase userData signedUp upserted)) = None \<and>
         error (snd (register toLowerCase userData signedUp upserted)) \<noteq> None \<and>
         fst (register toLowerCase userData signedUp upserted) =
           [AuthSignUp (email userData) (password userData)]"
  using assms
  by (auto simp: register_def accountCreationFails_def Let_def
           split: awaited.splits option.splits)

theorem register_account_failure_witness:
  "accountCreationFails (Resolved (Failure ''User already registered'')) \<and>
   register toLowerCase_latin1 jane (Resolved (Failure ''User already registered''))
       (Resolved (Success jane_profile)) =
     ([AuthSignUp (JString ''Jane.Doe@X.com'') (JString ''secret1'')],
      \<lparr>user = None, error = Some ''User already registered''\<rparr>)"
proof -
  have h: "accountCreationFails (Resolved (Failure ''User already registered''))"
    by (simp add: accountCreationFails_def)
  from register_account_failure [OF h, of toLowerCase_latin1 jane "Resolved (Success jane_profile)"] h
  show ?thesis by (simp add: register_def jane_def)
qed

text \<open>
  C7. \<^verbatim>\<open>adminCreateUser\<close> returns null when account creation fails and when the profile
  insertion fails, and in every case its result is either null or the user mapped from
  the inserted row and the created account. The result type has no room for a thrown
  value or for the failing step: every throw inside the body ends in the same null.
\<close>

theorem adminCreateUser_null:
  "(accountCreationFails signedUp \<longrightarrow> snd (adminCreateUser userData signedUp inserted) = None) \<and>
   (profileInsertFails inserted \<longrightarrow> snd (adminCreateUser userData signedUp inserted) = None) \<and>
   (snd (adminCreateUser userData signedUp inserted) = None \<or>
    (\<exists>authUser profile u.
        signedUp = Resolved (Success (Some authUser)) \<and>
        inserted = Resolved (Success profile) \<and>
        mapProfileToUser (Some profile) (Some authUser) = Inr u \<and>
        snd (adminCreateUser userData signedUp inserted) = Some u))"
proof (intro conjI impI)
  show "snd (adminCreateUser userData signedUp inserted) = None \<or>
    (\<exists>authUser profile u.
        signedUp = Resolved (Success (Some authUser)) \<and>
        inserted = Resolved (Success profile) \<and>
        mapProfileToUser (Some profile) (Some authUser) = Inr u \<and>
        snd (adminCreateUser userData signedUp inserted) = Some u)"
  proof (cases "snd (adminCreateUser userData signedUp inserted)")
    case None
    then show ?thesis by simp
  next
    case (Some u)
    from adminCreateUser_Some [OF Some] Some show ?thesis by blast
  qed
qed (simp_all add: adminCreateUser_account_failure adminCreateUser_insert_failure)

theorem adminCreateUser_null_witness:
  "accountCreationFails (Resolved (Failure ''User already registered'')) \<and>
   snd (adminCreateUser jane (Resolved (Failure ''User already registered''))
          (Resolved (Success jane_profile))) = None \<and>
   profileInsertFails (Resolved (Failure ''duplicate key'')) \<and>
   adminCreateUser jane (Resolved (Success (Some jane_auth))) (Resolved (Failure ''duplicate key'')) =
     ([AuthSignUp (JString ''Jane.Doe@X.com'') (JString ''secret1''),
       ProfilesInsert
         [(''id'', JString ''u1''), (''email'', JString ''Jane.Doe@X.com''),
          (''full_name'', JString ''Jane Doe''), (''username'', JString ''Jane.Doe''),
          (''phone_number'', JString ''0812''), (''is_admin'', JBool True),
          (''is_verified'', JBool True), (''balance'', JNumber (Fin 5000))]],
      None) \<and>
   snd (adminCreateUser jane (Resolved (Success (Some jane_auth))) (Resolved (Success jane_profile))) =
     Some \<lparr> id_user = JString ''u1'', email = JString ''Jane.Doe@X.com'',
             fullName = JString ''Jane Doe'', username = JString ''jane.doe'',
             phoneNumber = JString ''0812'', isAdmin = JBool False, isVerified = JBool False,
             balance = JNumber (Fin 13000000), notifications = JArray [],
             profilePictureUrl = JUndefined \<rparr>"
proof -
  have a: "accountCreationFails (Resolved (Failure ''User already registered''))"
    by (simp add: accountCreationFails_def)
  have b: "profileInsertFails (Resolved (Failure ''duplicate key''))"
    by (simp add: profileInsertFails_def)
  from adminCreateUser_null [of "Resolved (Failure ''User already registered'')" jane
        "Resolved (Success jane_profile)"] a
  have c: "snd (adminCreateUser jane (Resolved (Failure ''User already registered''))
          (Resolved (Success jane_profile))) = None" by simp
  from a b c show ?thesis
    by (simp add: adminCreateUser_def adminCreateUser_row_def mapProfileToUser_def jane_def
          jane_auth_def jane_profile_def js_defs)
qed

text \<open>
  C8. When \<^verbatim>\<open>register\<close> succeeds (it returns a user), it made exactly two remote calls,
  the sign-up and one profile upsert, and the upserted row has \<^verbatim>\<open>is_admin\<close> false,
  \<^verbatim>\<open>is_verified\<close> false and \<^verbatim>\<open>balance\<close> 13000000 whatever the caller's data holds; its
  \<^verbatim>\<open>username\<close> is what the language's \<^verbatim>\<open>toLowerCase\<close> gives for the email's text before
  the first \<^verbatim>\<open>@\<close>.
\<close>

theorem register_profile_row:
  assumes "user (snd (register toLowerCase userData signedUp upserted)) = Some u"
  shows "\<exists>e authUser.
           email userData = JString e \<and>
           signedUp = Resolved (Success (Some authUser)) \<and>
           fst (register toLowerCase userData signedUp upserted) =
             [AuthSignUp (email userData) (password userData),
              ProfilesUpsert
                [(''id'', getProp authUser ''id''),
                 (''email'', email userData),
                 (''full_name'', fullName userData),
                 (''username'', JString (toLowerCase (takeWhile (\<lambda>c. c \<noteq> CHR ''@'') e))),
                 (''phone_number'', phoneNumber userData),
                 (''is_admin'', JBool False),
                 (''is_verified'', JBool False),
                 (''balance'', JNumber (Fin 13000000))]]"
proof -
  from register_Some [OF assms] obtain e authUser where
    e: "email userData = JString e" and
    s: "signedUp = Resolved (Success (Some authUser))" and
    c: "fst (register toLowerCase userData signedUp upserted) =
             [AuthSignUp (email userData) (password userData),
              ProfilesUpsert
                (register_row userData (getProp authUser ''id'')
                   (JString (toLowerCase (hd (split CHR ''@'' e)))))]"
    by blast
  obtain w ws where w: "split CHR ''@'' e = w # ws"
    using split_nonempty [of "CHR ''@''" e] by (cases "split CHR ''@'' e") auto
  from split_head [OF w] w have "hd (split CHR ''@'' e) = takeWhile (\<lambda>c. c \<noteq> CHR ''@'') e"
    by simp
  with e s c show ?thesis by (simp add: register_row_def)
qed

theorem register_profile_row_witness:
  "user (snd (register toLowerCase_latin1 jane (Resolved (Success (Some jane_auth)))
                (Resolved (Success jane_profile)))) \<noteq> None \<and>
   isAdmin jane = JBool True \<and> balance jane = JNumber (Fin 5000) \<and>
   fst (register toLowerCase_latin1 jane (Resolved (Success (Some jane_auth)))
          (Resolved (Success jane_profile))) =
     [AuthSignUp (JString ''Jane.Doe@X.com'') (JString ''secret1''),
      ProfilesUpsert
        [(''id'', JString ''u1''),
         (''email'', JString ''Jane.Doe@X.com''),
         (''full_name'', JString ''Jane Doe''),
         (''username'', JString ''jane.doe''),
         (''phone_number'', JString ''0812''),
         (''is_admin'', JBool False),
         (''is_verified'', JBool False),
         (''balance'', JNumber (Fin 13000000))]]"
proof -
  obtain u where
    h: "user (snd (register toLowerCase_latin1 jane (Resolved (Success (Some jane_auth)))
                     (Resolved (Success jane_profile)))) = Some u"
    by (simp add: register_def jane_def jane_auth_def jane_profile_def mapProfileToUser_def js_defs)
  from register_profile_row [OF h] h show ?thesis
    by (auto simp: jane_def jane_auth_def js_defs)
qed

text \<open>
  C9. When the partial record's id is absent or falsy, \<^verbatim>\<open>updateUserInfo\<close> returns
  normally without any remote call, so nothing stored can change.
\<close>

theorem updateUserInfo_no_id:
  assumes "\<not> truthy (id_user updatedData)"
  shows "updateUserInfo updatedData updated = ([], Inr ())"
  using assms by (simp add: updateUserInfo_def)

theorem updateUserInfo_no_id_witness:
  "\<not> truthy (id_user (deactivate\<lparr>id_user := JUndefined\<rparr>)) \<and>
   updateUserInfo (deactivate\<lparr>id_user := JUndefined\<rparr>) (Resolved (Success ())) = ([], Inr ())"
proof -
  have h: "\<not> truthy (id_user (deactivate\<lparr>id_user := JUndefined\<rparr>))" by simp
  from updateUserInfo_no_id [OF h] h show ?thesis by simp
qed

section \<open>The console's properties\<close>

text \<open>
  C4. \<^verbatim>\<open>parseFloat\<close> stands for the language's function, which gives \<^verbatim>\<open>NaN\<close> for the empty
  string. On a submission of the balance form: if the amount does not parse as a number
  (\<^verbatim>\<open>parseFloat\<close> gives \<^verbatim>\<open>NaN\<close>) the state stays as it was and the balance-update function
  is not called; if it parses, the function is called exactly once, with the selected
  user's id, the parsed number and the chosen mode. The form can be submitted only while
  it is in the page, which is while a user is selected.
\<close>

theorem handleBalanceSubmit_gate:
  assumes "isNaN (parseFloat [])"
  shows "(isNaN (parseFloat (balanceAmount s)) \<longrightarrow>
            filter isBalanceUpdate (fst (snd (handleBalanceSubmit parseFloat s updated))) = [] \<and>
            fst (handleBalanceSubmit parseFloat s updated) = s) \<and>
         (\<not> isNaN (parseFloat (balanceAmount s)) \<and> balanceModalRendered s \<longrightarrow>
            (\<exists>u. selectedUserForBalance s = Some u \<and>
                 filter isBalanceUpdate (fst (snd (handleBalanceSubmit parseFloat s updated))) =
                   [AdminUpdateUserBalance (id_user u) (parseFloat (balanceAmount s))
                      (balanceOperation s)]))"
proof (cases "balanceAmount s = []")
  case True
  with assms show ?thesis
    by (simp add: handleBalanceSubmit_def split: option.splits)
next
  case False
  then show ?thesis
    by (auto simp: handleBalanceSubmit_def balanceModalRendered_def Let_def
             split: option.splits awaited.splits)
qed

text \<open>
  An instance: a parser that knows the amount 5000 and gives \<^verbatim>\<open>NaN\<close> for the two other
  strings it is asked about here, as the language's does.
\<close>

theorem handleBalanceSubmit_gate_witness:
  "isNaN ((\<lambda>a. if a = ''5000'' then Fin 5000 else NaN) []) \<and>
   balanceModalRendered console \<and>
   fst (snd (handleBalanceSubmit (\<lambda>a. if a = ''5000'' then Fin 5000 else NaN) console
               (Resolved ()))) =
     [PreventDefault, AdminUpdateUserBalance (JString ''u1'') (Fin 5000) OpAdd, LoadData] \<and>
   handleBalanceSubmit (\<lambda>a. if a = ''5000'' then Fin 5000 else NaN)
       (console\<lparr>balanceAmount := ''abc''\<rparr>) (Resolved ()) =
     (console\<lparr>balanceAmount := ''abc''\<rparr>,
      [PreventDefault, Alert ''Please enter a valid number''], None)"
proof -
  have a: "isNaN ((\<lambda>a. if a = ''5000'' then Fin 5000 else NaN) [])"
    by (simp add: isNaN_def)
  have b: "balanceModalRendered console"
    by (simp add: balanceModalRendered_def console_def)
  from handleBalanceSubmit_gate
         [of "\<lambda>a. if a = ''5000'' then Fin 5000 else NaN" console "Resolved ()", OF a] a b
  show ?thesis
    by (simp add: handleBalanceSubmit_def isNaN_def console_def jane_user_def)
qed

text \<open>
  C5. The claim: the transaction search is a pure filter, and a search string that
  matches no transaction gives the empty list. The code does not do this when a listed
  user's full name is not a string. \<^verbatim>\<open>getAllUsers\<close> maps a profile row whose
  \<^verbatim>\<open>full_name\<close> is null to a user whose \<^verbatim>\<open>fullName\<close> is null; with that user as the
  owner of a transaction, a search string that occurs in neither the id, the owner id
  nor the owner's email makes the filter call \<^verbatim>\<open>toLowerCase\<close> on null, and the effect
  throws instead of setting the empty list. \<^verbatim>\<open>mapProfileToUser\<close> gives the same row the
  empty string as full name, and with a full name in place the same search gives the
  empty list.
\<close>

theorem trxSearchEffect_throws:
  "fullName (getAllUsers_row nameless_row) = JNull \<and>
   map_sum id fullName (mapProfileToUser (Some nameless_row) (Some jane_auth)) =
     Inr (JString []) \<and>
   trxSearchEffect toLowerCase_latin1
       (console\<lparr>users := [getAllUsers_row nameless_row], trxSearch := ''zzz''\<rparr>) =
     Inl (TypeError ''toLowerCase is not a function'') \<and>
   trxSearchEffect toLowerCase_latin1 (console\<lparr>trxSearch := ''zzz''\<rparr>) =
     Inr (console\<lparr>trxSearch := ''zzz'', filteredTransactions := []\<rparr>)"
  by (simp add: search_defs getAllUsers_row_def mapProfileToUser_def nameless_row_def
        jane_auth_def)

text \<open>
  C6. The selector of a transaction row offers CANCELLED exactly when the transaction
  is a withdrawal, and FAILED exactly when it is a withdrawal (so never for a deposit);
  a row has a selector exactly when it is not a transfer, and a transfer's cell is the
  text Auto.
\<close>

theorem statusCell_options:
  "(CANCELLED \<in> set (offered t) \<longleftrightarrow> type_trx t = WITHDRAWAL) \<and>
   (FAILED \<in> set (offered t) \<longleftrightarrow> type_trx t = WITHDRAWAL) \<and>
   (hasSelector t \<longleftrightarrow> type_trx t \<noteq> TRANSFER) \<and>
   (statusCell t = Span ''Auto'' \<longleftrightarrow> type_trx t = TRANSFER)"
  by (cases "type_trx t") (simp_all add: offered_def hasSelector_def statusCell_def)

theorem statusCell_options_witness:
  "offered withdrawal2 = [PENDING, SUCCESS, REJECTED, CANCELLED, FAILED] \<and>
   offered deposit1 = [PENDING, SUCCESS, REJECTED] \<and>
   statusCell (deposit1\<lparr>type_trx := TRANSFER\<rparr>) = Span ''Auto''"
  using statusCell_options [of "deposit1\<lparr>type_trx := TRANSFER\<rparr>"]
  by (simp add: offered_def statusCell_def withdrawal2_def deposit1_def)

text \<open>
  C10. When the amount is the empty string, or no user is selected, the submit handler
  returns with the state unchanged, and its only effect is stopping the form's default
  action: no balance-update call and no alert.
\<close>

theorem handleBalanceSubmit_empty:
  assumes "balanceAmount s = [] \<or> selectedUserForBalance s = None"
  shows "handleBalanceSubmit parseFloat s updated = (s, [PreventDefault], None)"
  using assms by (auto simp: handleBalanceSubmit_def split: option.splits)

theorem handleBalanceSubmit_empty_witness:
  "balanceAmount (console\<lparr>balanceAmount := []\<rparr>) = [] \<and>
   isBalanceModalOpen (console\<lparr>balanceAmount := []\<rparr>) \<and>
   selectedUserForBalance (console\<lparr>balanceAmount := []\<rparr>) = Some jane_user \<and>
   handleBalanceSubmit (\<lambda>a. NaN) (console\<lparr>balanceAmount := []\<rparr>) (Resolved ()) =
     (console\<lparr>balanceAmount := []\<rparr>, [PreventDefault], None) \<and>
   balanceAmount (console\<lparr>selectedUserForBalance := None\<rparr>) = ''5000'' \<and>
   handleBalanceSubmit (\<lambda>a. Fin 5000) (console\<lparr>selectedUserForBalance := None\<rparr>) (Resolved ()) =
     (console\<lparr>selectedUserForBalance := None\<rparr>, [PreventDefault], None)"
proof -
  have h: "balanceAmount (console\<lparr>balanceAmount := []\<rparr>) = [] \<or>
           selectedUserForBalance (console\<lparr>balanceAmount := []\<rparr>) = None" by simp
  have k: "balanceAmount (console\<lparr>selectedUserForBalance := None\<rparr>) = [] \<or>
           selectedUserForBalance (console\<lparr>selectedUserForBalance := None\<rparr>) = None" by simp
  from handleBalanceSubmit_empty [OF h, of "\<lambda>a. NaN" "Resolved ()"]
       handleBalanceSubmit_empty [OF k, of "\<lambda>a. Fin 5000" "Resolved ()"]
  show ?thesis by (simp add: console_def)
qed

end
